theory Spec2Isabelle
  imports Main
begin

section \<open>JavaScript strings and the library functions the build script calls\<close>

text \<open>
  The script \<^verbatim>\<open>scripts/gulpfiles/build_tasks.js\<close> computes with strings. A JavaScript
  string is modelled as a \<^typ>\<open>string\<close>, one \<^typ>\<open>char\<close> per code unit (the
  script's own literals are ASCII). The functions of this section are not part of the
  script: they are the Node.js and ECMAScript library functions it calls, written out
  for the arguments the script gives them.
\<close>

subsection \<open>\<^verbatim>\<open>Array.prototype.join\<close>, and splitting at a separator\<close>

fun join_with :: "string \<Rightarrow> string list \<Rightarrow> string" where
  "join_with sep [] = []"
| "join_with sep [x] = x"
| "join_with sep (x # y # ys) = x @ sep @ join_with sep (y # ys)"

fun split_on :: "char \<Rightarrow> string \<Rightarrow> string list" where
  "split_on d [] = [[]]"
| "split_on d (c # cs) =
     (if c = d then [] # split_on d cs
      else (case split_on d cs of [] \<Rightarrow> [[c]] | s # ss \<Rightarrow> (c # s) # ss))"

subsection \<open>\<^verbatim>\<open>path.posix.join\<close>\<close>

text \<open>
  \<^verbatim>\<open>path.posix.join(a, b)\<close> joins its non-empty arguments with \<^verbatim>\<open>/\<close> and
  normalises the result: empty and \<^verbatim>\<open>.\<close> segments are dropped, a \<^verbatim>\<open>..\<close>
  segment removes the segment before it (or is kept, in a relative path, when there is
  none to remove), a leading and a trailing slash are kept.
\<close>

fun normalizeString :: "bool \<Rightarrow> string list \<Rightarrow> string list \<Rightarrow> string list" where
  "normalizeString allowAboveRoot res [] = res"
| "normalizeString allowAboveRoot res (s # ss) =
     normalizeString allowAboveRoot
       (if s = [] \<or> s = ''.'' then res
        else if s = ''..'' then
          (if res \<noteq> [] \<and> last res \<noteq> ''..'' then butlast res
           else if allowAboveRoot then res @ [''..'']
           else res)
        else res @ [s])
       ss"

definition posix_normalize :: "string \<Rightarrow> string" where
  "posix_normalize p =
     (if p = [] then ''.''
      else
        (let isAbsolute = (hd p = CHR ''/'');
             trailingSeparator = (last p = CHR ''/'');
             q = join_with ''/'' (normalizeString (\<not> isAbsolute) [] (split_on (CHR ''/'') p))
         in if q = [] then (if isAbsolute then ''/'' else if trailingSeparator then ''./'' else ''.'')
            else (if isAbsolute then ''/'' else []) @ q @ (if trailingSeparator then ''/'' else [])))"

definition posix_join :: "string \<Rightarrow> string \<Rightarrow> string" where
  "posix_join a b =
     (let joined = join_with ''/'' (filter (\<lambda>arg. arg \<noteq> []) [a, b])
      in if joined = [] then ''.'' else posix_normalize joined)"

subsection \<open>\<^verbatim>\<open>JSON.stringify\<close> of a string\<close>

text \<open>
  The string between double quotes; the double quote, the backslash and the control
  characters below \<^verbatim>\<open>0x20\<close> are escaped.
\<close>

definition hex_digit :: "nat \<Rightarrow> char" where
  "hex_digit n = ''0123456789abcdef'' ! n"

definition json_quote_char :: "char \<Rightarrow> string" where
  "json_quote_char c =
     (if c = CHR 0x22 then [CHR 0x5C, CHR 0x22]
      else if c = CHR 0x5C then [CHR 0x5C, CHR 0x5C]
      else if c = CHR 0x08 then [CHR 0x5C, CHR ''b'']
      else if c = CHR 0x09 then [CHR 0x5C, CHR ''t'']
      else if c = CHR 0x0A then [CHR 0x5C, CHR ''n'']
      else if c = CHR 0x0C then [CHR 0x5C, CHR ''f'']
      else if c = CHR 0x0D then [CHR 0x5C, CHR ''r'']
      else if (of_char c :: nat) < 32 then
        [CHR 0x5C, CHR ''u'', CHR ''0'', CHR ''0'',
         hex_digit ((of_char c :: nat) div 16), hex_digit ((of_char c :: nat) mod 16)]
      else [c])"

definition JSON_stringify :: "string \<Rightarrow> string" where
  "JSON_stringify s = CHR 0x22 # concat (map json_quote_char s) @ [CHR 0x22]"

subsection \<open>Numbers in template literals\<close>

text \<open>An array length interpolated into a template literal prints in decimal.\<close>

fun number_toString :: "nat \<Rightarrow> string" where
  "number_toString n =
     (if n < 10 then [''0123456789'' ! n]
      else number_toString (n div 10) @ [''0123456789'' ! (n mod 10)])"

declare number_toString.simps [simp del]

section \<open>Chunks\<close>

text \<open>
  A chunk of the list \<^verbatim>\<open>chunks\<close> (lines 106 to 159). \<^verbatim>\<open>files\<close> is a glob or an
  array of globs. \<^verbatim>\<open>scriptNamedExports\<close> is optional; when present it is an object
  literal, held here as the list of its \<^verbatim>\<open>location: namedExport\<close> properties in the
  order a \<^verbatim>\<open>for ... in\<close> loop visits them (for keys that are property paths, the
  order in which the literal declares them). \<^verbatim>\<open>parent\<close> is \<^verbatim>\<open>null\<close> or a chunk.
\<close>

datatype files = Glob string | Globs "string list"

datatype chunk = Chunk
  (name: string)
  (files: files)
  (entry: string)
  (scriptExport: string)
  (scriptNamedExports: "(string \<times> string) list option")
  (parent: "chunk option")

definition COMPILED_SUFFIX :: string where
  "COMPILED_SUFFIX = ''_compressed''"

definition NAMESPACE_VARIABLE :: string where
  "NAMESPACE_VARIABLE = ''$''"

definition NAMESPACE_PROPERTY :: string where
  "NAMESPACE_PROPERTY = ''__namespace__''"

text \<open>The list \<^verbatim>\<open>chunks\<close> after the loop of lines 156 to 159 has set the parents.\<close>

definition blockly_chunk :: chunk where
  "blockly_chunk = Chunk ''blockly'' (Glob ''core/**/*.js'') ''core/blockly.js'' ''Blockly'' None None"

definition blocks_chunk :: chunk where
  "blocks_chunk =
     Chunk ''blocks'' (Glob ''blocks/**/*.js'') ''blocks/blocks.js'' ''Blockly.libraryBlocks'' None
       (Some blockly_chunk)"

definition javascript_chunk :: chunk where
  "javascript_chunk =
     Chunk ''javascript'' (Globs [''generators/javascript.js'', ''generators/javascript/**/*.js''])
       ''generators/javascript.js'' ''javascript''
       (Some [(''Blockly.JavaScript'', ''javascriptGenerator'')]) (Some blockly_chunk)"

definition chunks :: "chunk list" where
  "chunks =
     [blockly_chunk,
      blocks_chunk,
      javascript_chunk,
      Chunk ''python'' (Globs [''generators/python.js'', ''generators/python/**/*.js''])
        ''generators/python.js'' ''python''
        (Some [(''Blockly.Python'', ''pythonGenerator'')]) (Some blockly_chunk),
      Chunk ''php'' (Globs [''generators/php.js'', ''generators/php/**/*.js''])
        ''generators/php.js'' ''php''
        (Some [(''Blockly.PHP'', ''phpGenerator'')]) (Some blockly_chunk),
      Chunk ''lua'' (Globs [''generators/lua.js'', ''generators/lua/**/*.js''])
        ''generators/lua.js'' ''lua''
        (Some [(''Blockly.Lua'', ''luaGenerator'')]) (Some blockly_chunk),
      Chunk ''dart'' (Globs [''generators/dart.js'', ''generators/dart/**/*.js''])
        ''generators/dart.js'' ''dart''
        (Some [(''Blockly.Dart'', ''dartGenerator'')]) (Some blockly_chunk)]"

section \<open>\<^verbatim>\<open>modulePath\<close> (lines 165 to 168)\<close>

text \<open>
  \<^verbatim>\<open>TSC_OUTPUT_DIR_POSIX\<close> comes from the configuration module, which is not part of
  the script: it is the first argument. \<^verbatim>\<open>replace(/\.js$/, '')\<close> removes a final
  \<^verbatim>\<open>.js\<close>; \<^verbatim>\<open>replaceAll('/', '$')\<close> turns every slash into a dollar sign.
\<close>

definition replace_js_suffix :: "string \<Rightarrow> string" where
  "replace_js_suffix s =
     (if 3 \<le> length s \<and> drop (length s - 3) s = ''.js'' then take (length s - 3) s else s)"

definition replaceAll_slash :: "string \<Rightarrow> string" where
  "replaceAll_slash s = map (\<lambda>c. if c = CHR ''/'' then CHR ''$'' else c) s"

definition modulePath :: "string \<Rightarrow> chunk \<Rightarrow> string" where
  "modulePath TSC_OUTPUT_DIR_POSIX c =
     (let entryPath = posix_join TSC_OUTPUT_DIR_POSIX (entry c)
      in ''module$'' @ replaceAll_slash (replace_js_suffix entryPath))"

section \<open>\<^verbatim>\<open>chunkWrapper\<close> (lines 379 to 439)\<close>

text \<open>
  The statements of the script branch (lines 407 to 414): the array starts with the
  assignment of the factory's result, and the \<^verbatim>\<open>for ... in\<close> loop pushes one
  statement for each property of \<^verbatim>\<open>chunk.scriptNamedExports\<close>. Over
  \<^verbatim>\<open>undefined\<close> the loop does not iterate.
\<close>

definition scriptExportStatements :: "chunk \<Rightarrow> string \<Rightarrow> string list" where
  "scriptExportStatements c scriptDepsExpr =
     foldl
       (\<lambda>statements (location, namedExport).
          statements @
          [''root.'' @ location @ '' = root.'' @ scriptExport c @ ''.'' @ namedExport @ '';''])
       [''root.'' @ scriptExport c @ '' = factory('' @ scriptDepsExpr @ '');'']
       (case scriptNamedExports c of None \<Rightarrow> [] | Some exports \<Rightarrow> exports)"

definition chunkWrapper :: "string \<Rightarrow> chunk \<Rightarrow> string" where
  "chunkWrapper TSC_OUTPUT_DIR_POSIX c =
     (let (amdDepsExpr, cjsDepsExpr, scriptDepsExpr, factoryArgs, namespaceExpr) =
            (case parent c of
               None \<Rightarrow> ([], [], [], [], ''{}'')
             | Some p \<Rightarrow>
                 (let parentFilename = JSON_stringify (''./'' @ name p @ COMPILED_SUFFIX @ ''.js'')
                  in (parentFilename,
                      ''require('' @ parentFilename @ '')'',
                      ''root.'' @ scriptExport p,
                      ''__parent__'',
                      ''__parent__'' @ ''.'' @ NAMESPACE_PROPERTY)))
      in ''// Do not edit this file; automatically generated.\<newline>\<newline>/* eslint-disable */\<newline>;(function(root, factory) {\<newline>  if (typeof define === \\'function\\' && define.amd) { // AMD\<newline>    define([''
         @ amdDepsExpr
         @ ''], factory);\<newline>  } else if (typeof exports === \\'object\\') { // Node.js\<newline>    module.exports = factory(''
         @ cjsDepsExpr
         @ '');\<newline>  } else { // Script\<newline>    ''
         @ join_with ''\<newline>    '' (scriptExportStatements c scriptDepsExpr)
         @ ''\<newline>  }\<newline>}(this, function(''
         @ factoryArgs
         @ '') {\<newline>var '' @ NAMESPACE_VARIABLE @ ''='' @ namespaceExpr
         @ '';\<newline>%output%\<newline>''
         @ modulePath TSC_OUTPUT_DIR_POSIX c @ ''.'' @ NAMESPACE_PROPERTY @ ''='' @ NAMESPACE_VARIABLE
         @ '';\<newline>return '' @ modulePath TSC_OUTPUT_DIR_POSIX c
         @ '';\<newline>}));\<newline>'')"

section \<open>\<^verbatim>\<open>getChunkOptions\<close> (lines 474 to 495)\<close>

text \<open>
  An exception thrown by a call into Node.js or a library, with its error code
  (\<^verbatim>\<open>ENOENT\<close>, \<^verbatim>\<open>EACCES\<close>, ...). A function that can throw returns
  \<open>exn + 'a\<close>, \<open>Inl\<close> the exception.
\<close>

datatype exn = SystemError string

text \<open>
  \<^verbatim>\<open>globSync(glob, {cwd})\<close> reads the file system: it is a parameter, a function of
  the pattern and the directory that returns the matched paths or throws.
\<close>

type_synonym glob_fn = "string \<Rightarrow> string \<Rightarrow> exn + string list"

record chunk_options =
  chunk :: "string list"
  js :: "string list"
  chunk_wrapper :: "string list"

text \<open>\<^verbatim>\<open>globs.flatMap((glob) => globSync(glob, {cwd: TSC_OUTPUT_DIR_POSIX}))\<close>\<close>

fun flatMap_globSync :: "glob_fn \<Rightarrow> string \<Rightarrow> string list \<Rightarrow> exn + string list" where
  "flatMap_globSync globSync cwd [] = Inr []"
| "flatMap_globSync globSync cwd (g # gs) =
     (case globSync g cwd of
        Inl e \<Rightarrow> Inl e
      | Inr matched \<Rightarrow>
          (case flatMap_globSync globSync cwd gs of
             Inl e \<Rightarrow> Inl e
           | Inr rest \<Rightarrow> Inr (matched @ rest)))"

text \<open>The constant \<^verbatim>\<open>files\<close> of the loop body (lines 479 to 482).\<close>

definition chunkFiles :: "glob_fn \<Rightarrow> string \<Rightarrow> chunk \<Rightarrow> exn + string list" where
  "chunkFiles globSync TSC_OUTPUT_DIR_POSIX c =
     (let globs = (case files c of Glob g \<Rightarrow> [g] | Globs gs \<Rightarrow> gs)
      in case flatMap_globSync globSync TSC_OUTPUT_DIR_POSIX globs of
           Inl e \<Rightarrow> Inl e
         | Inr matched \<Rightarrow> Inr (map (posix_join TSC_OUTPUT_DIR_POSIX) matched))"

text \<open>The string pushed to \<^verbatim>\<open>chunkOptions\<close> (lines 484 and 485), for a chunk and the length of its \<^verbatim>\<open>files\<close>.\<close>

definition chunkDescriptor :: "chunk \<Rightarrow> nat \<Rightarrow> string" where
  "chunkDescriptor c n =
     name c @ '':'' @ number_toString n @
     (case parent c of None \<Rightarrow> [] | Some p \<Rightarrow> '':'' @ name p)"

text \<open>
  The loop of lines 478 to 488 over the chunks, with the two arrays it pushes to as
  the accumulator.
\<close>

fun chunkLoop ::
  "glob_fn \<Rightarrow> string \<Rightarrow> chunk list \<Rightarrow> string list \<times> string list \<Rightarrow> exn + string list \<times> string list"
where
  "chunkLoop globSync tsc [] (chunkOptions, allFiles) = Inr (chunkOptions, allFiles)"
| "chunkLoop globSync tsc (c # cs) (chunkOptions, allFiles) =
     (case chunkFiles globSync tsc c of
        Inl e \<Rightarrow> Inl e
      | Inr fs \<Rightarrow>
          chunkLoop globSync tsc cs
            (chunkOptions @ [chunkDescriptor c (length fs)], allFiles @ fs))"

text \<open>The script reads the global \<^verbatim>\<open>chunks\<close>; here the list is the last argument.\<close>

definition getChunkOptions :: "glob_fn \<Rightarrow> string \<Rightarrow> chunk list \<Rightarrow> exn + chunk_options" where
  "getChunkOptions globSync TSC_OUTPUT_DIR_POSIX cs =
     (case chunkLoop globSync TSC_OUTPUT_DIR_POSIX cs ([], []) of
        Inl e \<Rightarrow> Inl e
      | Inr (chunkOptions, allFiles) \<Rightarrow>
          Inr \<lparr>chunk = chunkOptions,
               js = allFiles,
               chunk_wrapper = map (\<lambda>c. name c @ '':'' @ chunkWrapper TSC_OUTPUT_DIR_POSIX c) cs\<rparr>)"

text \<open>
  Reading a descriptor \<^verbatim>\<open>name:count\<close> or \<^verbatim>\<open>name:count:parent\<close> back: the file
  count it records for the chunk is the decimal number after the chunk's name and a
  colon.
\<close>

definition is_digit :: "char \<Rightarrow> bool" where
  "is_digit c = (c \<in> set ''0123456789'')"

definition digit_value :: "char \<Rightarrow> nat" where
  "digit_value c = of_char c - 48"

definition parse_decimal :: "string \<Rightarrow> nat" where
  "parse_decimal s = foldl (\<lambda>n c. 10 * n + digit_value c) 0 s"

definition descriptor_fileCount :: "chunk \<Rightarrow> string \<Rightarrow> nat" where
  "descriptor_fileCount c d = parse_decimal (takeWhile is_digit (drop (length (name c) + 1) d))"

text \<open>
  A compiled tree for the examples: two files under \<^verbatim>\<open>core\<close>, neither of them
  \<^verbatim>\<open>core/blockly.js\<close>, and three under \<^verbatim>\<open>blocks\<close>.
\<close>

definition example_globSync :: glob_fn where
  "example_globSync pattern cwd =
     (if cwd = ''build/src'' \<and> pattern = ''core/**/*.js'' then Inr [''core/block.js'', ''core/utils/dom.js'']
      else if cwd = ''build/src'' \<and> pattern = ''blocks/**/*.js''
        then Inr [''blocks/blocks.js'', ''blocks/lists.js'', ''blocks/logic.js'']
      else Inr [])"

section \<open>\<^verbatim>\<open>stripApacheLicense\<close> (lines 170 to 187)\<close>

text \<open>
  The regular expression is written as a backtracking matcher: a matcher maps the text
  at the current position to the list of texts that can remain after a match, in the
  order in which the regular expression engine tries them. The first one is the match
  the engine takes.
\<close>

type_synonym matcher = "string \<Rightarrow> string list"

definition rx_lit :: "string \<Rightarrow> matcher" where
  "rx_lit p s = (if take (length p) s = p then [drop (length p) s] else [])"

definition rx_seq :: "matcher \<Rightarrow> matcher \<Rightarrow> matcher" where
  "rx_seq m1 m2 s = concat (map m2 (m1 s))"

definition rx_alt :: "matcher \<Rightarrow> matcher \<Rightarrow> matcher" where
  "rx_alt m1 m2 s = m1 s @ m2 s"

text \<open>The greedy \<^verbatim>\<open>?\<close>: with the group first, without it second.\<close>

definition rx_opt :: "matcher \<Rightarrow> matcher" where
  "rx_opt m s = m s @ [s]"

text \<open>
  \<^verbatim>\<open>.\<close> matches one character that is not a line terminator: of the characters
  modelled, the line feed and the carriage return.
\<close>

definition rx_dot :: matcher where
  "rx_dot s = (case s of [] \<Rightarrow> [] | c # cs \<Rightarrow> if c = CHR 0x0A \<or> c = CHR 0x0D then [] else [cs])"

text \<open>The greedy \<^verbatim>\<open>\d+\<close>: all the digits first, then one fewer, down to one.\<close>

definition rx_digits :: matcher where
  "rx_digits s = map (\<lambda>k. drop k s) (rev [1 ..< Suc (length (takeWhile is_digit s))])"

definition licenseRegex :: matcher where
  "licenseRegex =
     rx_seq (rx_lit ''/**\<newline> * @license\<newline> * '')
    (rx_seq (rx_seq (rx_lit ''Copyright '')
            (rx_seq rx_digits
            (rx_seq (rx_lit '' '')
                    (rx_alt (rx_lit ''Google LLC'') (rx_lit ''Massachusetts Institute of Technology'')))))
    (rx_seq (rx_lit ''\<newline>'')
    (rx_seq (rx_opt (rx_seq (rx_lit '' * All rights reserved'') (rx_seq rx_dot (rx_lit ''\<newline>''))))
    (rx_seq (rx_lit '' * SPDX-License-Identifier: Apache-2'')
    (rx_seq rx_dot
            (rx_lit ''0\<newline> */''))))))"

text \<open>The text after the match that starts at the current position, if there is one.\<close>

definition licenseRegex_exec :: "string \<Rightarrow> string option" where
  "licenseRegex_exec s = (case licenseRegex s of [] \<Rightarrow> None | rest # _ \<Rightarrow> Some rest)"

text \<open>
  A matcher consumes at least \<open>k\<close> characters when every text it leaves is at least
  \<open>k\<close> characters shorter than the text it started on.
\<close>

definition consumes :: "nat \<Rightarrow> matcher \<Rightarrow> bool" where
  "consumes k m = (\<forall>s r. r \<in> set (m s) \<longrightarrow> length r + k \<le> length s)"

text \<open>
  \<^verbatim>\<open>gulp.replace(new RegExp(licenseRegex, 'g'), '\n\n\n\n')\<close> applied to the text of
  a file: the text is scanned from the left; where the regular expression matches, the
  four line feeds are written and the scan goes on after the match, elsewhere the
  character is copied.
\<close>

function stripApacheLicense :: "string \<Rightarrow> string" where
  "stripApacheLicense [] = []"
| "stripApacheLicense (c # cs) =
     (case licenseRegex_exec (c # cs) of
        Some rest \<Rightarrow> ''\<newline>\<newline>\<newline>\<newline>'' @ stripApacheLicense rest
      | None \<Rightarrow> c # stripApacheLicense cs)"
  by pat_completeness auto
termination
proof (relation "measure length")
  show "wf (measure length)" by simp
next
  fix c cs
  show "(cs, c # cs) \<in> measure length" by simp
next
  fix c :: char and cs rest :: string
  assume exec: "licenseRegex_exec (c # cs) = Some rest"
  have lit: "consumes (length p) (rx_lit p)" for p
  proof -
    have "length (drop (length p) s) + length p \<le> length s" if "take (length p) s = p" for s
    proof -
      from that have "length p \<le> length s"
        by (metis length_take min.cobounded1)
      then show ?thesis by simp
    qed
    then show ?thesis
      by (auto simp: consumes_def rx_lit_def split: if_splits)
  qed
  have weaken: "consumes j m" if "consumes k m" "j \<le> k" for j k m
    using that by (fastforce simp: consumes_def)
  have seq: "consumes (j + k) (rx_seq m1 m2)" if "consumes j m1" "consumes k m2" for j k m1 m2
    using that by (fastforce simp: consumes_def rx_seq_def)
  have lit0: "consumes 0 (rx_lit p)" for p
    by (rule weaken [OF lit]) simp
  have seq0: "consumes 0 (rx_seq m1 m2)" if "consumes 0 m1" "consumes 0 m2" for m1 m2
    using seq [OF that] by simp
  have alt0: "consumes 0 (rx_alt m1 m2)" if "consumes 0 m1" "consumes 0 m2" for m1 m2
    using that by (auto simp: consumes_def rx_alt_def)
  have opt0: "consumes 0 (rx_opt m)" if "consumes 0 m" for m
    using that by (auto simp: consumes_def rx_opt_def)
  have dot0: "consumes 0 rx_dot"
    by (auto simp: consumes_def rx_dot_def split: list.splits if_splits)
  have digits0: "consumes 0 rx_digits"
    by (auto simp: consumes_def rx_digits_def)
  have "consumes (length ''/**\<newline> * @license\<newline> * '' + 0) licenseRegex"
    unfolding licenseRegex_def
    by (intro seq lit seq0 lit0 alt0 opt0 dot0 digits0)
  then have "consumes 1 licenseRegex"
    by (rule weaken) simp
  moreover from exec have "rest \<in> set (licenseRegex (c # cs))"
    by (auto simp: licenseRegex_exec_def split: list.splits)
  ultimately have "length rest + 1 \<le> length (c # cs)"
    unfolding consumes_def by blast
  then show "(rest, c # cs) \<in> measure length" by simp
qed

text \<open>The number of lines of a text: one more than the number of its line feeds.\<close>

definition lineCount :: "string \<Rightarrow> nat" where
  "lineCount s = Suc (count_list s (CHR 0x0A))"

text \<open>Two source files for the examples, one with each variant of the header.\<close>

definition google_source :: string where
  "google_source = ''/**\<newline> * @license\<newline> * Copyright 2018 Google LLC\<newline> * SPDX-License-Identifier: Apache-2.0\<newline> */\<newline>goog.provide(\\'x\\');\<newline>''"

definition mit_source :: string where
  "mit_source = ''/**\<newline> * @license\<newline> * Copyright 2012 Massachusetts Institute of Technology\<newline> * All rights reserved.\<newline> * SPDX-License-Identifier: Apache-2.0\<newline> */\<newline>goog.provide(\\'x\\');\<newline>''"

section \<open>\<^verbatim>\<open>cleanBuildDir\<close> (lines 656 to 662)\<close>

text \<open>
  The state of a promise when the function returns it. \<^verbatim>\<open>BUILD_DIR\<close> comes from the
  configuration module and \<^verbatim>\<open>rimraf\<close> from a library: both are parameters.
  \<^verbatim>\<open>rimraf\<close> is any function of the path and the file system to a promise and the
  file system it leaves.
\<close>

datatype 'a promise = Resolved 'a | Rejected string

definition cleanBuildDir ::
  "string \<Rightarrow> (string \<Rightarrow> 'fs \<Rightarrow> bool promise \<times> 'fs) \<Rightarrow> 'fs \<Rightarrow> bool promise \<times> 'fs"
where
  "cleanBuildDir BUILD_DIR rimraf fs =
     (if BUILD_DIR = ''.'' \<or> BUILD_DIR = ''/'' then (Rejected (''Refusing to rm -rf '' @ BUILD_DIR), fs)
      else rimraf BUILD_DIR fs)"

text \<open>
  For the examples, a file system is the list of its paths, and \<^verbatim>\<open>rimraf\<close> removes a
  directory and what is below it.
\<close>

definition example_rimraf :: "string \<Rightarrow> string list \<Rightarrow> bool promise \<times> string list" where
  "example_rimraf dir fs =
     (Resolved True, filter (\<lambda>p. p \<noteq> dir \<and> take (length dir + 1) p \<noteq> dir @ ''/'') fs)"

section \<open>\<^verbatim>\<open>buildAdvancedCompilationTest\<close> (lines 622 to 651)\<close>

record compile_options =
  dependency_mode :: string
  compilation_level :: string
  entry_point :: string
  js_output_file :: string

text \<open>
  \<^verbatim>\<open>fs.unlinkSync\<close> returns the file system without the file, or throws. The gulp
  pipeline that the function returns (lines 644 to 650) is a parameter, a function of
  the sources, the compiler options and the file system. The result is \<open>Inl\<close> when an
  exception leaves the function.
\<close>

definition buildAdvancedCompilationTest ::
  "(string \<Rightarrow> 'fs \<Rightarrow> exn + 'fs) \<Rightarrow> (string list \<Rightarrow> compile_options \<Rightarrow> 'fs \<Rightarrow> 'r) \<Rightarrow>
   string \<Rightarrow> 'fs \<Rightarrow> exn + 'r"
where
  "buildAdvancedCompilationTest unlinkSync pipeline TSC_OUTPUT_DIR fs =
     (let fs1 = (case unlinkSync ''./tests/compile/main_compressed.js'' fs of
                   Inl e \<Rightarrow> fs
                 | Inr fs' \<Rightarrow> fs');
          srcs = [TSC_OUTPUT_DIR @ ''/**/*.js'', ''tests/compile/main.js'', ''tests/compile/test_blocks.js''];
          options = \<lparr>dependency_mode = ''PRUNE'',
                     compilation_level = ''ADVANCED_OPTIMIZATIONS'',
                     entry_point = ''./tests/compile/main.js'',
                     js_output_file = ''main_compressed.js''\<rparr>
      in Inr (pipeline srcs options fs1))"

text \<open>
  For the examples: a file system is the list of its paths; deleting the stale artifact
  fails with a permission error; the pipeline writes the compiled file.
\<close>

definition example_unlinkSync :: "string \<Rightarrow> string list \<Rightarrow> exn + string list" where
  "example_unlinkSync path fs = Inl (SystemError ''EACCES'')"

definition example_pipeline :: "string list \<Rightarrow> compile_options \<Rightarrow> string list \<Rightarrow> string list" where
  "example_pipeline srcs options fs = List.insert (''./tests/compile/'' @ js_output_file options) fs"

section \<open>Properties of the wrapper\<close>

subsection \<open>The text of the wrapper\<close>

lemma chunkWrapper_text:
  "chunkWrapper tsc c =
     (''// Do not edit this file; automatically generated.\<newline>\<newline>/* eslint-disable */\<newline>;(function(root, factory) {\<newline>  if (typeof define === \\'function\\' && define.amd) { // AMD\<newline>    define([''
        @ (case parent c of None \<Rightarrow> []
           | Some p \<Rightarrow> JSON_stringify (''./'' @ name p @ ''_compressed.js''))
        @ ''], factory);\<newline>  } else if (typeof exports === \\'object\\') { // Node.js\<newline>    module.exports = factory(''
        @ (case parent c of None \<Rightarrow> []
           | Some p \<Rightarrow> ''require('' @ JSON_stringify (''./'' @ name p @ ''_compressed.js'') @ '')'')
        @ '');\<newline>'')
     @ (''  } else { // Script\<newline>    ''
        @ join_with ''\<newline>    ''
            (scriptExportStatements c
               (case parent c of None \<Rightarrow> [] | Some p \<Rightarrow> ''root.'' @ scriptExport p))
        @ ''\<newline>  }\<newline>'')
     @ (''}(this, function(''
        @ (case parent c of None \<Rightarrow> [] | Some p \<Rightarrow> ''__parent__'')
        @ '') {\<newline>var $=''
        @ (case parent c of None \<Rightarrow> ''{}'' | Some p \<Rightarrow> ''__parent__.__namespace__'')
        @ '';\<newline>%output%\<newline>''
        @ modulePath tsc c @ ''.__namespace__=$;\<newline>return '' @ modulePath tsc c
        @ '';\<newline>}));\<newline>'')"
  unfolding chunkWrapper_def NAMESPACE_VARIABLE_def NAMESPACE_PROPERTY_def COMPILED_SUFFIX_def
  by (cases "parent c") (simp_all add: Let_def)

lemma split_suffix: "x = a @ b @ s \<Longrightarrow> \<exists>l. x = l @ s"
  by (metis append_assoc)

lemma split_prefix: "x = a @ r \<Longrightarrow> \<exists>rest. x = a @ rest"
  by blast

lemma foldl_push:
  "foldl (\<lambda>statements (location, namedExport). statements @ [f location namedExport]) acc m
     = acc @ map (\<lambda>(location, namedExport). f location namedExport) m"
  by (induction m arbitrary: acc) (auto split: prod.splits)

lemma scriptExportStatements_eq:
  "scriptExportStatements c d =
     (''root.'' @ scriptExport c @ '' = factory('' @ d @ '');'') #
     map (\<lambda>(location, namedExport).
            ''root.'' @ location @ '' = root.'' @ scriptExport c @ ''.'' @ namedExport @ '';'')
       (case scriptNamedExports c of None \<Rightarrow> [] | Some exports \<Rightarrow> exports)"
  unfolding scriptExportStatements_def
  using foldl_push [of "\<lambda>location namedExport.
    ''root.'' @ location @ '' = root.'' @ scriptExport c @ ''.'' @ namedExport @ '';''"]
  by simp

lemma JSON_stringify_nonempty: "JSON_stringify s \<noteq> []"
  by (simp add: JSON_stringify_def)

lemma modulePath_blocks:
  "modulePath ''build/src'' (Chunk n fs ''blocks/blocks.js'' se ne p) = ''module$build$src$blocks$blocks''"
  by (simp add: modulePath_def posix_join_def posix_normalize_def replace_js_suffix_def
      replaceAll_slash_def Let_def)

lemma modulePath_core:
  "modulePath ''build/src'' (Chunk n fs ''core/blockly.js'' se ne p) = ''module$build$src$core$blockly''"
  by (simp add: modulePath_def posix_join_def posix_normalize_def replace_js_suffix_def
      replaceAll_slash_def Let_def)

subsection \<open>What the wrapper depends on\<close>

text \<open>
  C3, as the script has it. The wrapper is a function of the chunk's \<^verbatim>\<open>entry\<close> (which
  \<^verbatim>\<open>modulePath\<close> reads), its \<^verbatim>\<open>scriptExport\<close>, its \<^verbatim>\<open>scriptNamedExports\<close> and,
  when the chunk has a parent, the parent's \<^verbatim>\<open>name\<close> and \<^verbatim>\<open>scriptExport\<close>: two
  chunks that agree on these have the same wrapper, for the same output directory. The
  chunk's own \<^verbatim>\<open>name\<close> and its \<^verbatim>\<open>files\<close> are not read.
\<close>

theorem chunkWrapper_inputs:
  assumes "entry c1 = entry c2"
    and "scriptExport c1 = scriptExport c2"
    and "scriptNamedExports c1 = scriptNamedExports c2"
    and "map_option (\<lambda>p. (name p, scriptExport p)) (parent c1) =
         map_option (\<lambda>p. (name p, scriptExport p)) (parent c2)"
  shows "chunkWrapper tsc c1 = chunkWrapper tsc c2"
proof -
  have m: "modulePath tsc c1 = modulePath tsc c2"
    using assms(1) by (simp add: modulePath_def)
  have s: "scriptExportStatements c1 d = scriptExportStatements c2 d" for d
    using assms(2,3) by (simp add: scriptExportStatements_def)
  show ?thesis
  proof (cases "parent c1")
    case None
    with assms(4) have "parent c2 = None" by simp
    with None m s show ?thesis by (simp add: chunkWrapper_def)
  next
    case (Some p1)
    with assms(4) obtain p2 where "parent c2 = Some p2" "name p1 = name p2"
      "scriptExport p1 = scriptExport p2"
      by (cases "parent c2") auto
    with Some m s show ?thesis by (simp add: chunkWrapper_def)
  qed
qed

text \<open>
  The chunk \<^verbatim>\<open>blocks\<close> and a chunk with another name, other globs and a parent that
  differs in its entry and its named exports have the same wrapper.
\<close>

theorem chunkWrapper_inputs_witness:
  "chunkWrapper ''build/src'' blocks_chunk =
   chunkWrapper ''build/src''
     (Chunk ''other'' (Globs []) ''blocks/blocks.js'' ''Blockly.libraryBlocks'' None
        (Some (Chunk ''blockly'' (Glob ''x'') ''y.js'' ''Blockly'' (Some []) None)))"
  by (rule chunkWrapper_inputs) (simp_all add: blocks_chunk_def blockly_chunk_def)

text \<open>
  C3 as stated fails: two chunks with the same name, the same parent, the same
  \<^verbatim>\<open>scriptExport\<close> and the same \<^verbatim>\<open>scriptNamedExports\<close>, whose entries differ, have
  different wrappers.
\<close>

theorem chunkWrapper_entry_counterexample:
  "name blocks_chunk
     = name (Chunk ''blocks'' (Glob ''blocks/**/*.js'') ''core/blockly.js'' ''Blockly.libraryBlocks'' None (Some blockly_chunk))
   \<and> map_option name (parent blocks_chunk)
     = map_option name (parent (Chunk ''blocks'' (Glob ''blocks/**/*.js'') ''core/blockly.js'' ''Blockly.libraryBlocks'' None (Some blockly_chunk)))
   \<and> scriptExport blocks_chunk
     = scriptExport (Chunk ''blocks'' (Glob ''blocks/**/*.js'') ''core/blockly.js'' ''Blockly.libraryBlocks'' None (Some blockly_chunk))
   \<and> scriptNamedExports blocks_chunk
     = scriptNamedExports (Chunk ''blocks'' (Glob ''blocks/**/*.js'') ''core/blockly.js'' ''Blockly.libraryBlocks'' None (Some blockly_chunk))
   \<and> chunkWrapper ''build/src'' blocks_chunk
     \<noteq> chunkWrapper ''build/src'' (Chunk ''blocks'' (Glob ''blocks/**/*.js'') ''core/blockly.js'' ''Blockly.libraryBlocks'' None (Some blockly_chunk))"
  by (simp add: blocks_chunk_def chunkWrapper_text modulePath_blocks modulePath_core
      scriptExportStatements_eq)

text \<open>
  The parent's \<^verbatim>\<open>scriptExport\<close> is read as well: it is the argument of the factory in
  the script branch. Two chunks that differ only in it have different wrappers.
\<close>

lemma chunkWrapper_parent_scriptExport:
  "chunkWrapper ''build/src'' blocks_chunk
     \<noteq> chunkWrapper ''build/src''
         (Chunk ''blocks'' (Glob ''blocks/**/*.js'') ''blocks/blocks.js'' ''Blockly.libraryBlocks'' None
            (Some (Chunk ''blockly'' (Glob ''core/**/*.js'') ''core/blockly.js'' ''Core'' None None)))"
  by (simp add: blocks_chunk_def blockly_chunk_def chunkWrapper_text modulePath_blocks
      scriptExportStatements_eq)

subsection \<open>The factory\<close>

text \<open>
  C4. The wrapper ends with the factory function. Without a parent the factory takes no
  argument and its body starts with \<^verbatim>\<open>var $={};\<close>; with a parent it takes
  \<^verbatim>\<open>__parent__\<close> and starts with \<^verbatim>\<open>var $=__parent__.__namespace__;\<close>. In both
  cases the last two statements store \<^verbatim>\<open>$\<close> in the module object's
  \<^verbatim>\<open>__namespace__\<close> property and return the module object.
\<close>

theorem chunkWrapper_factory_body:
  "\<exists>loader. chunkWrapper tsc c =
     loader @ (''}(this, function(''
       @ (case parent c of None \<Rightarrow> [] | Some p \<Rightarrow> ''__parent__'')
       @ '') {\<newline>var $=''
       @ (case parent c of None \<Rightarrow> ''{}'' | Some p \<Rightarrow> ''__parent__.__namespace__'')
       @ '';\<newline>%output%\<newline>''
       @ modulePath tsc c @ ''.__namespace__=$;\<newline>return '' @ modulePath tsc c
       @ '';\<newline>}));\<newline>'')"
  by (rule split_suffix [OF chunkWrapper_text])

subsection \<open>The dependency on the parent\<close>

text \<open>
  C5. The wrapper starts with the AMD and the CommonJS branch. With a parent, the AMD
  dependency list holds the string literal of \<^verbatim>\<open>./<parent's name>_compressed.js\<close> and
  the CommonJS branch passes \<^verbatim>\<open>require\<close> of the same literal to the factory; without
  a parent both are empty. Each is empty only when there is no parent. For the parent
  of the script's chunks the literal is \<^verbatim>\<open>"./blockly_compressed.js"\<close>.
\<close>

theorem chunkWrapper_parent_dependency:
  "(\<exists>rest. chunkWrapper tsc c =
      (''// Do not edit this file; automatically generated.\<newline>\<newline>/* eslint-disable */\<newline>;(function(root, factory) {\<newline>  if (typeof define === \\'function\\' && define.amd) { // AMD\<newline>    define([''
        @ (case parent c of None \<Rightarrow> []
           | Some p \<Rightarrow> JSON_stringify (''./'' @ name p @ ''_compressed.js''))
        @ ''], factory);\<newline>  } else if (typeof exports === \\'object\\') { // Node.js\<newline>    module.exports = factory(''
        @ (case parent c of None \<Rightarrow> []
           | Some p \<Rightarrow> ''require('' @ JSON_stringify (''./'' @ name p @ ''_compressed.js'') @ '')'')
        @ '');\<newline>'') @ rest)
   \<and> ((case parent c of None \<Rightarrow> []
        | Some p \<Rightarrow> JSON_stringify (''./'' @ name p @ ''_compressed.js'')) = [] \<longleftrightarrow> parent c = None)
   \<and> ((case parent c of None \<Rightarrow> []
        | Some p \<Rightarrow> ''require('' @ JSON_stringify (''./'' @ name p @ ''_compressed.js'') @ '')'') = []
          \<longleftrightarrow> parent c = None)
   \<and> JSON_stringify (''./'' @ name blockly_chunk @ ''_compressed.js'') = ''\"./blockly_compressed.js\"''"
proof (intro conjI)
  show "\<exists>rest. chunkWrapper tsc c =
      (''// Do not edit this file; automatically generated.\<newline>\<newline>/* eslint-disable */\<newline>;(function(root, factory) {\<newline>  if (typeof define === \\'function\\' && define.amd) { // AMD\<newline>    define([''
        @ (case parent c of None \<Rightarrow> []
           | Some p \<Rightarrow> JSON_stringify (''./'' @ name p @ ''_compressed.js''))
        @ ''], factory);\<newline>  } else if (typeof exports === \\'object\\') { // Node.js\<newline>    module.exports = factory(''
        @ (case parent c of None \<Rightarrow> []
           | Some p \<Rightarrow> ''require('' @ JSON_stringify (''./'' @ name p @ ''_compressed.js'') @ '')'')
        @ '');\<newline>'') @ rest"
    by (rule split_prefix [OF chunkWrapper_text])
  show "JSON_stringify (''./'' @ name blockly_chunk @ ''_compressed.js'') = ''\"./blockly_compressed.js\"''"
    by (simp add: blockly_chunk_def JSON_stringify_def json_quote_char_def)
qed (simp_all add: JSON_stringify_nonempty split: option.split)

subsection \<open>The script branch\<close>

text \<open>
  C6, evaluated. The statements of the script branch are one statement that calls the
  factory and assigns its result to \<^verbatim>\<open>root.<scriptExport>\<close>, followed by one
  assignment \<^verbatim>\<open>root.<location> = root.<scriptExport>.<namedExport>;\<close> for each named
  export, in the order of the map. For the chunk \<^verbatim>\<open>blocks\<close> the branch is the single
  statement \<^verbatim>\<open>root.Blockly.libraryBlocks = factory(root.Blockly);\<close>: the call and the
  assignment are not separate statements.
\<close>

theorem chunkWrapper_script_branch:
  "scriptExportStatements c d =
     (''root.'' @ scriptExport c @ '' = factory('' @ d @ '');'') #
     map (\<lambda>(location, namedExport).
            ''root.'' @ location @ '' = root.'' @ scriptExport c @ ''.'' @ namedExport @ '';'')
       (case scriptNamedExports c of None \<Rightarrow> [] | Some exports \<Rightarrow> exports)
   \<and> scriptExportStatements javascript_chunk ''root.Blockly'' =
       [''root.javascript = factory(root.Blockly);'',
        ''root.Blockly.JavaScript = root.javascript.javascriptGenerator;'']
   \<and> chunkWrapper ''build/src'' blocks_chunk =
       ''// Do not edit this file; automatically generated.\<newline>\<newline>/* eslint-disable */\<newline>;(function(root, factory) {\<newline>  if (typeof define === \\'function\\' && define.amd) { // AMD\<newline>    define([\"./blockly_compressed.js\"], factory);\<newline>  } else if (typeof exports === \\'object\\') { // Node.js\<newline>    module.exports = factory(require(\"./blockly_compressed.js\"));\<newline>  } else { // Script\<newline>    root.Blockly.libraryBlocks = factory(root.Blockly);\<newline>  }\<newline>}(this, function(__parent__) {\<newline>var $=__parent__.__namespace__;\<newline>%output%\<newline>module$build$src$blocks$blocks.__namespace__=$;\<newline>return module$build$src$blocks$blocks;\<newline>}));\<newline>''"
proof (intro conjI)
  show "scriptExportStatements javascript_chunk ''root.Blockly'' =
       [''root.javascript = factory(root.Blockly);'',
        ''root.Blockly.JavaScript = root.javascript.javascriptGenerator;'']"
    by (simp add: scriptExportStatements_eq javascript_chunk_def)
  show "chunkWrapper ''build/src'' blocks_chunk =
       ''// Do not edit this file; automatically generated.\<newline>\<newline>/* eslint-disable */\<newline>;(function(root, factory) {\<newline>  if (typeof define === \\'function\\' && define.amd) { // AMD\<newline>    define([\"./blockly_compressed.js\"], factory);\<newline>  } else if (typeof exports === \\'object\\') { // Node.js\<newline>    module.exports = factory(require(\"./blockly_compressed.js\"));\<newline>  } else { // Script\<newline>    root.Blockly.libraryBlocks = factory(root.Blockly);\<newline>  }\<newline>}(this, function(__parent__) {\<newline>var $=__parent__.__namespace__;\<newline>%output%\<newline>module$build$src$blocks$blocks.__namespace__=$;\<newline>return module$build$src$blocks$blocks;\<newline>}));\<newline>''"
    by code_simp
qed (rule scriptExportStatements_eq)

text \<open>
  C10. For a chunk without \<^verbatim>\<open>scriptNamedExports\<close> the array of statements has one
  element, the assignment of the factory's result, and the wrapper is the text below,
  with that statement alone in the script branch.
\<close>

theorem chunkWrapper_without_named_exports:
  assumes "scriptNamedExports c = None"
  shows "scriptExportStatements c d = [''root.'' @ scriptExport c @ '' = factory('' @ d @ '');'']
    \<and> chunkWrapper tsc c =
     (''// Do not edit this file; automatically generated.\<newline>\<newline>/* eslint-disable */\<newline>;(function(root, factory) {\<newline>  if (typeof define === \\'function\\' && define.amd) { // AMD\<newline>    define([''
        @ (case parent c of None \<Rightarrow> []
           | Some p \<Rightarrow> JSON_stringify (''./'' @ name p @ ''_compressed.js''))
        @ ''], factory);\<newline>  } else if (typeof exports === \\'object\\') { // Node.js\<newline>    module.exports = factory(''
        @ (case parent c of None \<Rightarrow> []
           | Some p \<Rightarrow> ''require('' @ JSON_stringify (''./'' @ name p @ ''_compressed.js'') @ '')'')
        @ '');\<newline>'')
     @ (''  } else { // Script\<newline>    ''
        @ (''root.'' @ scriptExport c @ '' = factory(''
             @ (case parent c of None \<Rightarrow> [] | Some p \<Rightarrow> ''root.'' @ scriptExport p) @ '');'')
        @ ''\<newline>  }\<newline>'')
     @ (''}(this, function(''
        @ (case parent c of None \<Rightarrow> [] | Some p \<Rightarrow> ''__parent__'')
        @ '') {\<newline>var $=''
        @ (case parent c of None \<Rightarrow> ''{}'' | Some p \<Rightarrow> ''__parent__.__namespace__'')
        @ '';\<newline>%output%\<newline>''
        @ modulePath tsc c @ ''.__namespace__=$;\<newline>return '' @ modulePath tsc c
        @ '';\<newline>}));\<newline>'')"
proof -
  have one: "scriptExportStatements c d = [''root.'' @ scriptExport c @ '' = factory('' @ d @ '');'']" for d
    using assms by (simp add: scriptExportStatements_eq)
  show ?thesis
    by (subst chunkWrapper_text) (simp only: one join_with.simps simp_thms)
qed

theorem chunkWrapper_without_named_exports_witness:
  "scriptNamedExports blockly_chunk = None
   \<and> scriptExportStatements blockly_chunk [] = [''root.Blockly = factory();'']
   \<and> chunkWrapper ''build/src'' blockly_chunk =
       ''// Do not edit this file; automatically generated.\<newline>\<newline>/* eslint-disable */\<newline>;(function(root, factory) {\<newline>  if (typeof define === \\'function\\' && define.amd) { // AMD\<newline>    define([], factory);\<newline>  } else if (typeof exports === \\'object\\') { // Node.js\<newline>    module.exports = factory();\<newline>  } else { // Script\<newline>    root.Blockly = factory();\<newline>  }\<newline>}(this, function() {\<newline>var $={};\<newline>%output%\<newline>module$build$src$core$blockly.__namespace__=$;\<newline>return module$build$src$core$blockly;\<newline>}));\<newline>''"
proof -
  have h: "scriptNamedExports blockly_chunk = None"
    by (simp add: blockly_chunk_def)
  have m: "modulePath ''build/src'' blockly_chunk = ''module$build$src$core$blockly''"
    unfolding blockly_chunk_def by (rule modulePath_core)
  have p: "parent blockly_chunk = None" "scriptExport blockly_chunk = ''Blockly''"
    by (simp_all add: blockly_chunk_def)
  from chunkWrapper_without_named_exports [OF h, of "[]" "''build/src''"] h show ?thesis
    by (simp add: m p)
qed

section \<open>Properties of chunk resolution\<close>

subsection \<open>Decimal numbers\<close>

lemma lt_10_cases:
  "k < 10 \<Longrightarrow>
   k = 0 \<or> k = 1 \<or> k = 2 \<or> k = 3 \<or> k = 4 \<or> k = 5 \<or> k = 6 \<or> k = 7 \<or> k = 8 \<or> k = (9::nat)"
  by arith

lemma digit_value_nth: "k < 10 \<Longrightarrow> digit_value (''0123456789'' ! k) = k"
  by (drule lt_10_cases) (auto simp: digit_value_def)

lemma is_digit_nth: "k < 10 \<Longrightarrow> is_digit (''0123456789'' ! k)"
  unfolding is_digit_def by (rule nth_mem) simp

lemma number_toString_digits: "c \<in> set (number_toString n) \<Longrightarrow> is_digit c"
proof (induction n arbitrary: c rule: number_toString.induct)
  case (1 n)
  show ?case
  proof (cases "n < 10")
    case True
    with "1.prems" show ?thesis
      by (subst (asm) number_toString.simps) (simp add: is_digit_nth)
  next
    case False
    with "1.prems" have "c \<in> set (number_toString (n div 10)) \<or> c = ''0123456789'' ! (n mod 10)"
      by (subst (asm) number_toString.simps) auto
    with False "1.IH" show ?thesis
      by (auto simp: is_digit_nth)
  qed
qed

lemma parse_decimal_snoc: "parse_decimal (s @ [c]) = 10 * parse_decimal s + digit_value c"
  by (simp add: parse_decimal_def)

lemma parse_decimal_number_toString: "parse_decimal (number_toString n) = n"
proof (induction n rule: number_toString.induct)
  case (1 n)
  show ?case
  proof (cases "n < 10")
    case True
    then show ?thesis
      by (subst number_toString.simps) (simp add: parse_decimal_def digit_value_nth)
  next
    case False
    with "1.IH" have "parse_decimal (number_toString (n div 10)) = n div 10"
      by simp
    with False show ?thesis
      by (subst number_toString.simps) (simp add: parse_decimal_snoc digit_value_nth)
  qed
qed

lemma descriptor_fileCount_chunkDescriptor: "descriptor_fileCount c (chunkDescriptor c n) = n"
proof -
  have "takeWhile is_digit (number_toString n @ rest) = number_toString n"
    if "rest = [] \<or> hd rest = CHR '':''" for rest
  proof -
    have "takeWhile is_digit rest = []"
      using that by (cases rest) (auto simp: is_digit_def)
    then show ?thesis
      by (simp add: takeWhile_append2 number_toString_digits)
  qed
  then have "takeWhile is_digit
               (number_toString n @ (case parent c of None \<Rightarrow> [] | Some p \<Rightarrow> '':'' @ name p))
             = number_toString n"
    by (simp split: option.split)
  then show ?thesis
    by (simp add: descriptor_fileCount_def chunkDescriptor_def parse_decimal_number_toString)
qed

lemma map2_descriptor_fileCount:
  "length cs = length ns \<Longrightarrow> map2 descriptor_fileCount cs (map2 chunkDescriptor cs ns) = ns"
proof (induction cs ns rule: list_induct2)
  case Nil
  then show ?case by simp
next
  case (Cons c cs n ns)
  then show ?case by (simp add: descriptor_fileCount_chunkDescriptor)
qed

subsection \<open>The loop\<close>

lemma chunkLoop_resolved:
  "map (chunkFiles g tsc) cs = map Inr fss \<Longrightarrow>
   chunkLoop g tsc cs (chunkOptions, allFiles) =
     Inr (chunkOptions @ map2 chunkDescriptor cs (map length fss), allFiles @ concat fss)"
proof (induction cs arbitrary: fss chunkOptions allFiles)
  case Nil
  then show ?case by simp
next
  case (Cons c cs)
  then obtain fs rest where "fss = fs # rest" "chunkFiles g tsc c = Inr fs"
    "map (chunkFiles g tsc) cs = map Inr rest"
    by (cases fss) auto
  with Cons.IH [of rest] show ?case by simp
qed

lemma chunkLoop_Inr:
  "chunkLoop g tsc cs acc = Inr res \<Longrightarrow> \<exists>fss. map (chunkFiles g tsc) cs = map Inr fss"
proof (induction cs arbitrary: acc)
  case Nil
  then show ?case by simp
next
  case (Cons c cs)
  obtain chunkOptions allFiles where acc: "acc = (chunkOptions, allFiles)"
    by (cases acc)
  from Cons.prems acc obtain fs where fs: "chunkFiles g tsc c = Inr fs"
    by (cases "chunkFiles g tsc c") auto
  with Cons.prems acc
  have "chunkLoop g tsc cs (chunkOptions @ [chunkDescriptor c (length fs)], allFiles @ fs) = Inr res"
    by simp
  from Cons.IH [OF this] obtain rest where "map (chunkFiles g tsc) cs = map Inr rest" ..
  with fs have "map (chunkFiles g tsc) (c # cs) = map Inr (fs # rest)" by simp
  then show ?case ..
qed

lemma chunkLoop_Inl:
  "chunkLoop g tsc cs acc = Inl e \<Longrightarrow> \<exists>c \<in> set cs. chunkFiles g tsc c = Inl e"
proof (induction cs arbitrary: acc)
  case Nil
  then show ?case by (cases acc) simp
next
  case (Cons c cs)
  obtain chunkOptions allFiles where acc: "acc = (chunkOptions, allFiles)"
    by (cases acc)
  show ?case
  proof (cases "chunkFiles g tsc c")
    case (Inl e')
    with Cons.prems acc show ?thesis by simp
  next
    case (Inr fs)
    with Cons.prems acc
    have "chunkLoop g tsc cs (chunkOptions @ [chunkDescriptor c (length fs)], allFiles @ fs) = Inl e"
      by simp
    from Cons.IH [OF this] show ?thesis by auto
  qed
qed

lemma all_resolved:
  "(\<forall>c \<in> set cs. \<exists>fs. chunkFiles g tsc c = Inr fs) \<Longrightarrow> \<exists>fss. map (chunkFiles g tsc) cs = map Inr fss"
proof (induction cs)
  case Nil
  then show ?case by simp
next
  case (Cons c cs)
  then obtain fs rest where "chunkFiles g tsc c = Inr fs" "map (chunkFiles g tsc) cs = map Inr rest"
    by auto
  then have "map (chunkFiles g tsc) (c # cs) = map Inr (fs # rest)" by simp
  then show ?case ..
qed

lemma sum_list_length_concat: "sum_list (map length fss) = length (concat fss)"
  by (induction fss) auto

lemma example_chunkFiles:
  "chunkFiles example_globSync ''build/src'' blockly_chunk =
     Inr [''build/src/core/block.js'', ''build/src/core/utils/dom.js'']"
  "chunkFiles example_globSync ''build/src'' blocks_chunk =
     Inr [''build/src/blocks/blocks.js'', ''build/src/blocks/lists.js'', ''build/src/blocks/logic.js'']"
  by (simp_all add: blockly_chunk_def blocks_chunk_def chunkFiles_def example_globSync_def
      posix_join_def posix_normalize_def)

subsection \<open>File counts and the flat file list\<close>

text \<open>
  C1. When \<^verbatim>\<open>getChunkOptions\<close> returns the options, every chunk's files were
  resolved, to the lists \<open>fss\<close> in the order of the chunks, and: \<^verbatim>\<open>js\<close> is the
  concatenation of these lists in that order; \<^verbatim>\<open>chunk\<close> holds, for each chunk in
  order, the descriptor with the length of the chunk's list; the count read back from
  each descriptor is that length; and the counts read back from the descriptors add up
  to the length of \<^verbatim>\<open>js\<close>.
\<close>

theorem getChunkOptions_file_counts:
  assumes "getChunkOptions g tsc cs = Inr m"
  shows "\<exists>fss. map (chunkFiles g tsc) cs = map Inr fss
           \<and> js m = concat fss
           \<and> chunk m = map2 chunkDescriptor cs (map length fss)
           \<and> map2 descriptor_fileCount cs (chunk m) = map length fss
           \<and> sum_list (map2 descriptor_fileCount cs (chunk m)) = length (js m)"
proof -
  from assms obtain res where res: "chunkLoop g tsc cs ([], []) = Inr res"
    by (auto simp: getChunkOptions_def split: sum.splits)
  from chunkLoop_Inr [OF res] obtain fss where fss: "map (chunkFiles g tsc) cs = map Inr fss" ..
  then have len: "length cs = length fss"
    by (metis length_map)
  from chunkLoop_resolved [OF fss, of "[]" "[]"] assms
  have m: "js m = concat fss" "chunk m = map2 chunkDescriptor cs (map length fss)"
    by (auto simp: getChunkOptions_def)
  from len have counts: "map2 descriptor_fileCount cs (chunk m) = map length fss"
    unfolding m by (intro map2_descriptor_fileCount) simp
  have "sum_list (map2 descriptor_fileCount cs (chunk m)) = length (js m)"
    by (simp only: counts m(1) sum_list_length_concat)
  with fss m counts show ?thesis by blast
qed

text \<open>
  The first two chunks of the script on the example tree: two files and three files,
  the descriptors \<^verbatim>\<open>blockly:2\<close> and \<^verbatim>\<open>blocks:3:blockly\<close>, five files in \<^verbatim>\<open>js\<close>.
\<close>

theorem getChunkOptions_file_counts_witness:
  "getChunkOptions example_globSync ''build/src'' [blockly_chunk, blocks_chunk] =
     Inr \<lparr>chunk = [''blockly:2'', ''blocks:3:blockly''],
          js = [''build/src/core/block.js'', ''build/src/core/utils/dom.js'',
                ''build/src/blocks/blocks.js'', ''build/src/blocks/lists.js'',
                ''build/src/blocks/logic.js''],
          chunk_wrapper = [''blockly:'' @ chunkWrapper ''build/src'' blockly_chunk,
                           ''blocks:'' @ chunkWrapper ''build/src'' blocks_chunk]\<rparr>
   \<and> map2 descriptor_fileCount [blockly_chunk, blocks_chunk] [''blockly:2'', ''blocks:3:blockly''] = [2, 3]
   \<and> sum_list (map2 descriptor_fileCount [blockly_chunk, blocks_chunk] [''blockly:2'', ''blocks:3:blockly''])
       = length [''build/src/core/block.js'', ''build/src/core/utils/dom.js'',
                ''build/src/blocks/blocks.js'', ''build/src/blocks/lists.js'',
                ''build/src/blocks/logic.js'']"
proof -
  have h: "getChunkOptions example_globSync ''build/src'' [blockly_chunk, blocks_chunk] =
     Inr \<lparr>chunk = [''blockly:2'', ''blocks:3:blockly''],
          js = [''build/src/core/block.js'', ''build/src/core/utils/dom.js'',
                ''build/src/blocks/blocks.js'', ''build/src/blocks/lists.js'',
                ''build/src/blocks/logic.js''],
          chunk_wrapper = [''blockly:'' @ chunkWrapper ''build/src'' blockly_chunk,
                           ''blocks:'' @ chunkWrapper ''build/src'' blocks_chunk]\<rparr>"
    by (simp add: getChunkOptions_def example_chunkFiles chunkDescriptor_def number_toString.simps)
       (simp add: blockly_chunk_def blocks_chunk_def)
  let ?m = "\<lparr>chunk = [''blockly:2'', ''blocks:3:blockly''],
          js = [''build/src/core/block.js'', ''build/src/core/utils/dom.js'',
                ''build/src/blocks/blocks.js'', ''build/src/blocks/lists.js'',
                ''build/src/blocks/logic.js''],
          chunk_wrapper = [''blockly:'' @ chunkWrapper ''build/src'' blockly_chunk,
                           ''blocks:'' @ chunkWrapper ''build/src'' blocks_chunk]\<rparr>"
  from getChunkOptions_file_counts [OF h] obtain fss where
    a: "map (chunkFiles example_globSync ''build/src'') [blockly_chunk, blocks_chunk] = map Inr fss" and
    b: "map2 descriptor_fileCount [blockly_chunk, blocks_chunk] (chunk ?m) = map length fss" and
    c: "sum_list (map2 descriptor_fileCount [blockly_chunk, blocks_chunk] (chunk ?m)) = length (js ?m)"
    by blast
  from a have "fss = [[''build/src/core/block.js'', ''build/src/core/utils/dom.js''],
      [''build/src/blocks/blocks.js'', ''build/src/blocks/lists.js'', ''build/src/blocks/logic.js'']]"
    by (auto simp: example_chunkFiles)
  with b have "map2 descriptor_fileCount [blockly_chunk, blocks_chunk] (chunk ?m) = [2, 3]"
    by simp
  with c h show ?thesis by simp
qed

subsection \<open>The entry of a chunk is not checked\<close>

text \<open>
  C7 as stated fails. On the example tree the entry \<^verbatim>\<open>core/blockly.js\<close> of the chunk
  \<^verbatim>\<open>blockly\<close> is not among the files its glob resolves to, and
  \<^verbatim>\<open>getChunkOptions\<close> returns the options.
\<close>

theorem getChunkOptions_entry_counterexample:
  "chunkFiles example_globSync ''build/src'' blockly_chunk =
     Inr [''build/src/core/block.js'', ''build/src/core/utils/dom.js'']
   \<and> posix_join ''build/src'' (entry blockly_chunk) = ''build/src/core/blockly.js''
   \<and> ''build/src/core/blockly.js'' \<notin> set [''build/src/core/block.js'', ''build/src/core/utils/dom.js'']
   \<and> getChunkOptions example_globSync ''build/src'' [blockly_chunk] =
       Inr \<lparr>chunk = [''blockly:2''],
            js = [''build/src/core/block.js'', ''build/src/core/utils/dom.js''],
            chunk_wrapper = [''blockly:'' @ chunkWrapper ''build/src'' blockly_chunk]\<rparr>"
proof (intro conjI)
  show "posix_join ''build/src'' (entry blockly_chunk) = ''build/src/core/blockly.js''"
    by (simp add: blockly_chunk_def posix_join_def posix_normalize_def)
  show "getChunkOptions example_globSync ''build/src'' [blockly_chunk] =
       Inr \<lparr>chunk = [''blockly:2''],
            js = [''build/src/core/block.js'', ''build/src/core/utils/dom.js''],
            chunk_wrapper = [''blockly:'' @ chunkWrapper ''build/src'' blockly_chunk]\<rparr>"
    by (simp add: getChunkOptions_def example_chunkFiles chunkDescriptor_def number_toString.simps)
       (simp add: blockly_chunk_def)
qed (simp_all add: example_chunkFiles)

text \<open>
  C7, as the script has it. \<^verbatim>\<open>getChunkOptions\<close> does not look at the entry of a
  chunk: it returns the options exactly when the globs of every chunk are expanded
  without an exception, and an exception that leaves it is one that the expansion of
  some chunk's globs threw.
\<close>

theorem getChunkOptions_succeeds:
  "((\<exists>m. getChunkOptions g tsc cs = Inr m) \<longleftrightarrow> (\<forall>c \<in> set cs. \<exists>fs. chunkFiles g tsc c = Inr fs))
   \<and> (getChunkOptions g tsc cs = Inl e \<longrightarrow> (\<exists>c \<in> set cs. chunkFiles g tsc c = Inl e))"
proof (intro conjI iffI impI)
  assume "\<exists>m. getChunkOptions g tsc cs = Inr m"
  then obtain res where "chunkLoop g tsc cs ([], []) = Inr res"
    by (auto simp: getChunkOptions_def split: sum.splits)
  from chunkLoop_Inr [OF this] obtain fss where fss: "map (chunkFiles g tsc) cs = map Inr fss" ..
  show "\<forall>c \<in> set cs. \<exists>fs. chunkFiles g tsc c = Inr fs"
  proof
    fix c assume "c \<in> set cs"
    then have "chunkFiles g tsc c \<in> set (map Inr fss)"
      unfolding fss [symmetric] by simp
    then show "\<exists>fs. chunkFiles g tsc c = Inr fs" by auto
  qed
next
  assume "\<forall>c \<in> set cs. \<exists>fs. chunkFiles g tsc c = Inr fs"
  from all_resolved [OF this] obtain fss where "map (chunkFiles g tsc) cs = map Inr fss" ..
  from chunkLoop_resolved [OF this, of "[]" "[]"]
  show "\<exists>m. getChunkOptions g tsc cs = Inr m"
    by (simp add: getChunkOptions_def)
next
  assume "getChunkOptions g tsc cs = Inl e"
  then have "chunkLoop g tsc cs ([], []) = Inl e"
    by (auto simp: getChunkOptions_def split: sum.splits)
  then show "\<exists>c \<in> set cs. chunkFiles g tsc c = Inl e"
    by (rule chunkLoop_Inl)
qed

text \<open>
  On the example tree the globs of \<^verbatim>\<open>blockly\<close> are expanded and the options are
  returned, though the entry is not among the files; when the expansion throws, the
  exception is the one that leaves \<^verbatim>\<open>getChunkOptions\<close>.
\<close>

theorem getChunkOptions_succeeds_witness:
  "(\<exists>m. getChunkOptions example_globSync ''build/src'' [blockly_chunk] = Inr m)
   \<and> posix_join ''build/src'' (entry blockly_chunk)
       \<notin> set [''build/src/core/block.js'', ''build/src/core/utils/dom.js'']
   \<and> getChunkOptions (\<lambda>pattern cwd. Inl (SystemError ''EIO'')) ''build/src'' [blockly_chunk]
       = Inl (SystemError ''EIO'')
   \<and> (\<exists>c \<in> set [blockly_chunk].
         chunkFiles (\<lambda>pattern cwd. Inl (SystemError ''EIO'')) ''build/src'' c = Inl (SystemError ''EIO''))"
proof -
  have 1: "\<forall>c \<in> set [blockly_chunk]. \<exists>fs. chunkFiles example_globSync ''build/src'' c = Inr fs"
    by (simp add: example_chunkFiles)
  have 2: "getChunkOptions (\<lambda>pattern cwd. Inl (SystemError ''EIO'')) ''build/src'' [blockly_chunk]
       = Inl (SystemError ''EIO'')"
    by (simp add: getChunkOptions_def chunkFiles_def blockly_chunk_def)
  have 3: "posix_join ''build/src'' (entry blockly_chunk)
       \<notin> set [''build/src/core/block.js'', ''build/src/core/utils/dom.js'']"
    by (simp add: blockly_chunk_def posix_join_def posix_normalize_def)
  from getChunkOptions_succeeds [of example_globSync "''build/src''" "[blockly_chunk]"] 1
  have "\<exists>m. getChunkOptions example_globSync ''build/src'' [blockly_chunk] = Inr m"
    by blast
  moreover
  from getChunkOptions_succeeds [of "\<lambda>pattern cwd. Inl (SystemError ''EIO'')" "''build/src''"
      "[blockly_chunk]" "SystemError ''EIO''"] 2
  have "\<exists>c \<in> set [blockly_chunk].
         chunkFiles (\<lambda>pattern cwd. Inl (SystemError ''EIO'')) ''build/src'' c = Inl (SystemError ''EIO'')"
    by blast
  ultimately show ?thesis using 2 3 by blast
qed

section \<open>Properties of the license stripping\<close>

text \<open>
  C2, evaluated. A header of the short variant has four line feeds and is replaced by
  four: the file keeps its seven lines. A header with the line
  \<^verbatim>\<open> * All rights reserved.\<close> has five line feeds and is replaced by four as well: the
  file of eight lines comes out with seven.
\<close>

theorem stripApacheLicense_line_count:
  "stripApacheLicense google_source = ''\<newline>\<newline>\<newline>\<newline>\<newline>goog.provide(\\'x\\');\<newline>''
   \<and> lineCount google_source = 7
   \<and> lineCount (stripApacheLicense google_source) = 7
   \<and> stripApacheLicense mit_source = ''\<newline>\<newline>\<newline>\<newline>\<newline>goog.provide(\\'x\\');\<newline>''
   \<and> lineCount mit_source = 8
   \<and> lineCount (stripApacheLicense mit_source) = 7"
proof -
  have g: "stripApacheLicense google_source = ''\<newline>\<newline>\<newline>\<newline>\<newline>goog.provide(\\'x\\');\<newline>''"
    by code_simp
  have m: "stripApacheLicense mit_source = ''\<newline>\<newline>\<newline>\<newline>\<newline>goog.provide(\\'x\\');\<newline>''"
    by code_simp
  show ?thesis
    unfolding g m by (simp add: lineCount_def google_source_def mit_source_def)
qed

section \<open>Properties of the clean-up tasks\<close>

text \<open>
  C8. When \<^verbatim>\<open>BUILD_DIR\<close> is \<^verbatim>\<open>.\<close> or \<^verbatim>\<open>/\<close>, \<^verbatim>\<open>cleanBuildDir\<close> returns a
  promise rejected with \<^verbatim>\<open>Refusing to rm -rf\<close> and the directory, and the file
  system is as it was, whatever \<^verbatim>\<open>rimraf\<close> would do. For every other value the
  result is that of \<^verbatim>\<open>rimraf\<close> on the directory.
\<close>

theorem cleanBuildDir_refusal:
  "(BUILD_DIR = ''.'' \<or> BUILD_DIR = ''/'' \<longrightarrow>
      cleanBuildDir BUILD_DIR rimraf fs = (Rejected (''Refusing to rm -rf '' @ BUILD_DIR), fs))
   \<and> (BUILD_DIR \<noteq> ''.'' \<and> BUILD_DIR \<noteq> ''/'' \<longrightarrow>
      cleanBuildDir BUILD_DIR rimraf fs = rimraf BUILD_DIR fs)"
  by (simp add: cleanBuildDir_def)

theorem cleanBuildDir_refusal_witness:
  "cleanBuildDir ''.'' example_rimraf [''build/src/core/blockly.js'', ''core/blockly.ts'']
     = (Rejected ''Refusing to rm -rf .'', [''build/src/core/blockly.js'', ''core/blockly.ts''])
   \<and> cleanBuildDir ''/'' example_rimraf [''build/src/core/blockly.js'', ''core/blockly.ts'']
     = (Rejected ''Refusing to rm -rf /'', [''build/src/core/blockly.js'', ''core/blockly.ts''])
   \<and> cleanBuildDir ''build'' example_rimraf [''build/src/core/blockly.js'', ''core/blockly.ts'']
     = (Resolved True, [''core/blockly.ts''])"
  using cleanBuildDir_refusal [of "''.''" example_rimraf "[''build/src/core/blockly.js'', ''core/blockly.ts'']"]
    cleanBuildDir_refusal [of "''/''" example_rimraf "[''build/src/core/blockly.js'', ''core/blockly.ts'']"]
    cleanBuildDir_refusal [of "''build''" example_rimraf "[''build/src/core/blockly.js'', ''core/blockly.ts'']"]
  by (simp add: example_rimraf_def)

text \<open>
  C9 as stated fails. When deleting the stale artifact fails with a permission error,
  the error does not leave \<^verbatim>\<open>buildAdvancedCompilationTest\<close>: the pipeline runs, on
  the file system as it was.
\<close>

theorem buildAdvancedCompilationTest_counterexample:
  "example_unlinkSync ''./tests/compile/main_compressed.js'' [''./tests/compile/main_compressed.js'']
     = Inl (SystemError ''EACCES'')
   \<and> buildAdvancedCompilationTest example_unlinkSync example_pipeline ''build/src''
       [''./tests/compile/main_compressed.js'']
     \<noteq> Inl (SystemError ''EACCES'')
   \<and> buildAdvancedCompilationTest example_unlinkSync example_pipeline ''build/src''
       [''./tests/compile/main_compressed.js'']
     = Inr [''./tests/compile/main_compressed.js'']"
  by (simp add: buildAdvancedCompilationTest_def example_unlinkSync_def example_pipeline_def)

text \<open>
  C9, as the script has it. Every exception of the deletion is caught and dropped,
  whatever its code: no exception leaves the function, and the pipeline runs on the
  file system the deletion left, or on the unchanged one when the deletion threw.
\<close>

theorem buildAdvancedCompilationTest_ignores_unlink_failure:
  "buildAdvancedCompilationTest unlinkSync pipeline tsc fs =
     Inr (pipeline
            [tsc @ ''/**/*.js'', ''tests/compile/main.js'', ''tests/compile/test_blocks.js'']
            \<lparr>dependency_mode = ''PRUNE'',
             compilation_level = ''ADVANCED_OPTIMIZATIONS'',
             entry_point = ''./tests/compile/main.js'',
             js_output_file = ''main_compressed.js''\<rparr>
            (case unlinkSync ''./tests/compile/main_compressed.js'' fs of
               Inl e \<Rightarrow> fs
             | Inr fs' \<Rightarrow> fs'))
   \<and> buildAdvancedCompilationTest unlinkSync pipeline tsc fs \<noteq> Inl e"
  by (simp add: buildAdvancedCompilationTest_def)

end
